theory Spec2Isabelle
  imports Complex_Main "HOL-Library.Sublist"
begin

section \<open>Python strings\<close>

text \<open>
  A Python \<^verbatim>\<open>str\<close> is a sequence of Unicode code points. It is modelled as a list of
  natural numbers, one per code point, so that \<open>length\<close> is Python's \<^verbatim>\<open>len\<close> and texts
  with characters beyond Latin-1 are covered. \<open>str\<close> embeds an ASCII literal.
\<close>

type_synonym py_str = "nat list"

definition str :: "string \<Rightarrow> py_str" where
  "str s = map of_char s"

text \<open>
  Python's Unicode whitespace test (\<^verbatim>\<open>str.isspace\<close> on one character). Both \<^verbatim>\<open>\s\<close> in a
  \<^verbatim>\<open>str\<close> pattern of \<^verbatim>\<open>re\<close> and \<^verbatim>\<open>str.strip()\<close> use it: the ASCII controls 9 to 13 and
  28 to 31, the space, and the Unicode separators.
\<close>

definition is_space :: "nat \<Rightarrow> bool" where
  "is_space c =
     ((9 \<le> c \<and> c \<le> 13) \<or> (28 \<le> c \<and> c \<le> 32) \<or> c = 133 \<or> c = 160 \<or> c = 5760
      \<or> (8192 \<le> c \<and> c \<le> 8202) \<or> c = 8232 \<or> c = 8233 \<or> c = 8239 \<or> c = 8287
      \<or> c = 12288)"

text \<open>\<^verbatim>\<open>s.strip()\<close>: whitespace removed at both ends.\<close>

definition strip :: "py_str \<Rightarrow> py_str" where
  "strip s = rev (dropWhile is_space (rev (dropWhile is_space s)))"

text \<open>
  \<^verbatim>\<open>s.split('\n')\<close>: the pieces between line feeds (code point 10); a text with \<open>n\<close> line
  feeds has \<open>n + 1\<close> pieces, the empty text one empty piece. \<open>cur\<close> is the piece being read.
\<close>

fun split_from :: "py_str \<Rightarrow> py_str \<Rightarrow> py_str list" where
  "split_from cur [] = [cur]"
| "split_from cur (c # cs) =
     (if c = 10 then cur # split_from [] cs else split_from (cur @ [c]) cs)"

definition split_lines :: "py_str \<Rightarrow> py_str list" where
  "split_lines s = split_from [] s"

section \<open>Location extractor\<close>

text \<open>
  The pattern of \<^verbatim>\<open>extract_locations_from_itinerary\<close> (the same in \<^verbatim>\<open>Roamio.py\<close> and
  \<^verbatim>\<open>app.py\<close>):
  \<^verbatim>\<open>(Visit|Stay at|Hotel|Restaurant|Explore|Check-in at)\s+([A-Za-z0-9 ,'-]+)\<close>
  compiled without flags, so letters match in their own case only.
\<close>

definition triggers :: "py_str list" where
  "triggers = [str ''Visit'', str ''Stay at'', str ''Hotel'', str ''Restaurant'',
               str ''Explore'', str ''Check-in at'']"

text \<open>The character class \<^verbatim>\<open>[A-Za-z0-9 ,'-]\<close> of group 2.\<close>

definition in_class :: "nat \<Rightarrow> bool" where
  "in_class c =
     ((65 \<le> c \<and> c \<le> 90) \<or> (97 \<le> c \<and> c \<le> 122) \<or> (48 \<le> c \<and> c \<le> 57)
      \<or> c = 32 \<or> c = 44 \<or> c = 39 \<or> c = 45)"

text \<open>
  \<^verbatim>\<open>\s+([A-Za-z0-9 ,'-]+)\<close> at the start of \<open>s\<close>. \<^verbatim>\<open>\s+\<close> is greedy: it first takes the whole
  run of whitespace, and gives characters back one at a time (down to one) while group 2
  cannot match a character after it. Group 2 is greedy and ends the pattern, so it is the
  longest run of class characters there. \<open>try_ws k s\<close> tries \<^verbatim>\<open>\s+\<close> on \<open>k\<close> characters, then on
  fewer.
\<close>

fun try_ws :: "nat \<Rightarrow> py_str \<Rightarrow> py_str option" where
  "try_ws 0 s = None"
| "try_ws (Suc k) s =
     (let run = takeWhile in_class (drop (Suc k) s)
      in if run \<noteq> [] then Some run else try_ws k s)"

definition match_tail :: "py_str \<Rightarrow> py_str option" where
  "match_tail s = try_ws (length (takeWhile is_space s)) s"

text \<open>
  The alternation of group 1 at the start of \<open>s\<close>: the alternatives are tried in the order
  written, and the next one is tried when the rest of the pattern fails after one. The
  result is group 2 of the match.
\<close>

fun match_alts :: "py_str list \<Rightarrow> py_str \<Rightarrow> py_str option" where
  "match_alts [] s = None"
| "match_alts (t # ts) s =
     (if prefix t s
      then (case match_tail (drop (length t) s) of
              Some g \<Rightarrow> Some g
            | None \<Rightarrow> match_alts ts s)
      else match_alts ts s)"

text \<open>
  \<^verbatim>\<open>re.search(pattern, line)\<close>: the match at the leftmost position where the pattern
  matches, \<open>None\<close> when there is none. The result is \<^verbatim>\<open>match.group(2)\<close>.
\<close>

fun re_search :: "py_str \<Rightarrow> py_str option" where
  "re_search [] = match_alts triggers []"
| "re_search (c # cs) =
     (case match_alts triggers (c # cs) of
        Some g \<Rightarrow> Some g
      | None \<Rightarrow> re_search cs)"

text \<open>The body of the loop over the lines: \<open>locations\<close> is the set built so far.\<close>

definition extract_line :: "py_str set \<Rightarrow> py_str \<Rightarrow> py_str set" where
  "extract_line locations line =
     (case re_search line of
        None \<Rightarrow> locations
      | Some g \<Rightarrow>
          (let loc = strip g
           in if length loc > 2 then insert loc locations else locations))"

text \<open>
  \<^verbatim>\<open>extract_locations_from_itinerary\<close>. The source returns \<^verbatim>\<open>list(locations)\<close>, the elements
  of the set in an order Python does not specify; the model returns the set itself.
\<close>

definition extract_locations_from_itinerary :: "py_str \<Rightarrow> py_str set" where
  "extract_locations_from_itinerary itinerary_text =
     foldl extract_line {} (split_lines itinerary_text)"

section \<open>Trip store\<close>

text \<open>
  A saved trip is the dictionary the planning page builds (keys \<^verbatim>\<open>from\<close>, \<^verbatim>\<open>destination\<close>,
  \<^verbatim>\<open>days\<close>, \<^verbatim>\<open>budget\<close>, \<^verbatim>\<open>pax\<close>, \<^verbatim>\<open>interests\<close>, \<^verbatim>\<open>generated_at\<close>, \<^verbatim>\<open>itinerary_text\<close>).
  The time stamp is a number that the store only copies.
\<close>

record trip =
  trip_from :: py_str
  trip_destination :: py_str
  trip_days :: int
  trip_budget :: py_str
  trip_pax :: py_str
  trip_interests :: "py_str list"
  trip_generated_at :: rat
  trip_itinerary_text :: py_str

text \<open>
  The file \<^verbatim>\<open>saved_trips.json\<close> is the only state. Its content is represented by what
  \<^verbatim>\<open>json.load\<close> makes of it: the list of trips it encodes (\<^verbatim>\<open>json.dump\<close> followed by
  \<^verbatim>\<open>json.load\<close> gives back such a list unchanged), or \<open>Unparsable\<close> for a text that
  \<^verbatim>\<open>json.load\<close> rejects. The program itself only ever writes lists of trips. \<open>None\<close> is the
  state in which the file does not exist. Failures of the file system (an unreadable or
  unwritable file) are outside the model.
\<close>

datatype file_content = Trips "trip list" | Unparsable

type_synonym trips_file = "file_content option"

datatype store_error = FileNotFoundError | JSONDecodeError

definition ensure_saved_trips_file :: "trips_file \<Rightarrow> trips_file" where
  "ensure_saved_trips_file f = (case f of None \<Rightarrow> Some (Trips []) | Some c \<Rightarrow> Some c)"

text \<open>\<^verbatim>\<open>load_saved_trips\<close> returns the file after the call and the list read, or the error raised.\<close>

definition load_saved_trips :: "trips_file \<Rightarrow> trips_file \<times> (store_error + trip list)" where
  "load_saved_trips f =
     (let f' = ensure_saved_trips_file f
      in (f', case f' of
                None \<Rightarrow> Inl FileNotFoundError
              | Some Unparsable \<Rightarrow> Inl JSONDecodeError
              | Some (Trips ts) \<Rightarrow> Inr ts))"

definition save_trip :: "trip \<Rightarrow> trips_file \<Rightarrow> trips_file \<times> (store_error + unit)" where
  "save_trip t f =
     (case load_saved_trips f of
        (f', Inl e) \<Rightarrow> (f', Inl e)
      | (f', Inr trips) \<Rightarrow> (Some (Trips (trips @ [t])), Inr ()))"

text \<open>Saving a list of trips one after the other, as repeated calls do; an error stops the run.\<close>

fun save_trips :: "trip list \<Rightarrow> trips_file \<Rightarrow> trips_file \<times> (store_error + unit)" where
  "save_trips [] f = (f, Inr ())"
| "save_trips (t # ts) f =
     (case save_trip t f of
        (f', Inl e) \<Rightarrow> (f', Inl e)
      | (f', Inr u) \<Rightarrow> save_trips ts f')"

section \<open>Prompt builder\<close>

text \<open>\<^verbatim>\<open>sep.join(xs)\<close>.\<close>

fun join :: "py_str \<Rightarrow> py_str list \<Rightarrow> py_str" where
  "join sep [] = []"
| "join sep [x] = x"
| "join sep (x # y # ys) = x @ sep @ join sep (y # ys)"

text \<open>The decimal numeral of an integer, as an f-string renders \<^verbatim>\<open>{days}\<close>.\<close>

fun str_of_nat :: "nat \<Rightarrow> py_str" where
  "str_of_nat n = (if n < 10 then [48 + n] else str_of_nat (n div 10) @ [48 + n mod 10])"

declare str_of_nat.simps [simp del]

definition str_of_int :: "int \<Rightarrow> py_str" where
  "str_of_int i = (if i < 0 then 45 # str_of_nat (nat (- i)) else str_of_nat (nat i))"

text \<open>\<^verbatim>\<open>build_itinerary_prompt\<close> of \<^verbatim>\<open>Roamio.py\<close>. An empty list is the only falsy list.\<close>

definition build_itinerary_prompt ::
  "py_str \<Rightarrow> int \<Rightarrow> py_str \<Rightarrow> py_str \<Rightarrow> py_str list \<Rightarrow> py_str" where
  "build_itinerary_prompt destination days budget pax interests =
     (let interests_txt =
            (if interests \<noteq> [] then join (str '', '') interests else str ''general sightseeing'')
      in str ''Create a '' @ str_of_int days @ str ''-day travel itinerary for '' @ pax
         @ str '' traveling to '' @ destination @ str ''. ''
         @ str ''Budget: '' @ budget @ str ''. Interests: '' @ interests_txt @ str ''. ''
         @ str ''For each day: morning/afternoon/evening plan, costs, transport, and 3 restaurants. ''
         @ str ''Suggest Stays with images & Google Maps links. ''
         @ str ''Suggest Restaurants with images & Google Maps links. ''
         @ str ''Add a packing tip for local climate. Keep it concise and friendly.'')"

text \<open>The same function in \<^verbatim>\<open>app.py\<close>, whose fixed sentences differ.\<close>

definition build_itinerary_prompt_app ::
  "py_str \<Rightarrow> int \<Rightarrow> py_str \<Rightarrow> py_str \<Rightarrow> py_str list \<Rightarrow> py_str" where
  "build_itinerary_prompt_app destination days budget pax interests =
     (let interests_txt =
            (if interests \<noteq> [] then join (str '', '') interests else str ''general sightseeing'')
      in str ''Create a '' @ str_of_int days @ str ''-day travel itinerary for '' @ pax
         @ str '' traveling to '' @ destination @ str ''. ''
         @ str ''Budget: '' @ budget @ str ''. Interests: '' @ interests_txt @ str ''. ''
         @ str ''For each day: morning/afternoon/evening plan, costs, transport, and 3 restaurant''
         @ str ''Suggest Stays With images with there location to google maps links. ''
         @ str ''Suggest Restaurants With images with there location to google maps links.''
         @ str ''Add a packing tip for local climate. Keep it concise and friendly.'')"

section \<open>Itinerary generator\<close>

text \<open>
  The text-generation backend is outside the program. One call has three outcomes:
  \<^verbatim>\<open>generate_content\<close> raises an exception \<^verbatim>\<open>e\<close> (network, quota), it returns a response
  whose \<^verbatim>\<open>.text\<close> raises (a response without text), or the response has a text. An
  exception is represented by \<^verbatim>\<open>str(e)\<close>, which is all the program uses of it. Only
  exceptions of class \<^verbatim>\<open>Exception\<close> are failures of the call; an interrupt of the process
  is none.
\<close>

datatype gemini_outcome = CallRaised py_str | TextRaised py_str | Text py_str

type_synonym gemini_model = "py_str \<Rightarrow> gemini_outcome"

text \<open>The body of the \<^verbatim>\<open>try\<close> block: \<open>Inl\<close> is the exception that leaves it.\<close>

definition generate_try :: "gemini_model \<Rightarrow> py_str \<Rightarrow> py_str + py_str" where
  "generate_try model prompt =
     (case model prompt of
        CallRaised e \<Rightarrow> Inl e
      | TextRaised e \<Rightarrow> Inl e
      | Text t \<Rightarrow> Inr (strip t))"

text \<open>
  \<^verbatim>\<open>generate_itinerary_gemini\<close>; \<open>GEMINI_MODEL\<close> is \<open>None\<close> when no key is configured.
\<close>

definition generate_itinerary_gemini :: "gemini_model option \<Rightarrow> py_str \<Rightarrow> py_str" where
  "generate_itinerary_gemini GEMINI_MODEL prompt =
     (case GEMINI_MODEL of
        None \<Rightarrow> str ''ERROR: GOOGLE_API_KEY not set.''
      | Some model \<Rightarrow>
          (case generate_try model prompt of
             Inr text \<Rightarrow> text
           | Inl e \<Rightarrow> str ''Gemini error: '' @ e))"

section \<open>Place lookup\<close>

text \<open>
  An entry of the \<^verbatim>\<open>results\<close> array of the places backend, with the keys the program reads.
  A key of the entry that is absent is \<open>None\<close>. The price level is the integer the backend
  documents, the rating a number that the program only copies.
\<close>

record photo_entry =
  photo_reference :: "py_str option"

record place_entry =
  item_name :: "py_str option"
  item_formatted_address :: "py_str option"
  item_rating :: "rat option"
  item_photos :: "photo_entry list option"
  item_place_id :: "py_str option"
  item_price_level :: "int option"
  item_types :: "py_str list option"

text \<open>
  What one request to the backend does inside the \<^verbatim>\<open>try\<close> block: \<^verbatim>\<open>requests.get\<close> raises
  (network error, timeout), \<^verbatim>\<open>raise_for_status\<close> raises (non-success status), \<^verbatim>\<open>r.json()\<close>
  raises (the body is not JSON), or the body is an object whose \<^verbatim>\<open>results\<close> key is absent
  (\<open>None\<close>) or holds a list of entries. An exception is represented by \<^verbatim>\<open>str(e)\<close>. The
  backend is a function of the query and the key sent to it.
\<close>

datatype http_outcome =
  GetRaised py_str
| StatusRaised py_str
| JsonRaised py_str
| Payload "place_entry list option"

type_synonym places_backend = "py_str \<Rightarrow> py_str \<Rightarrow> http_outcome"

text \<open>The dictionaries the two operations return.\<close>

record place =
  place_name :: "py_str option"
  place_address :: "py_str option"
  place_rating :: "rat option"
  place_photo :: "py_str option"
  place_maps_url :: py_str

record place_details = place +
  place_description :: "py_str list"
  place_price :: py_str

text \<open>How an f-string renders a value that may be \<^verbatim>\<open>None\<close>.\<close>

definition format_opt :: "py_str option \<Rightarrow> py_str" where
  "format_opt v = (case v of None \<Rightarrow> str ''None'' | Some s \<Rightarrow> s)"

text \<open>\<^verbatim>\<open>s.replace(' ', '+')\<close>.\<close>

definition replace_spaces :: "py_str \<Rightarrow> py_str" where
  "replace_spaces s = map (\<lambda>c. if c = 32 then 43 else c) s"

text \<open>
  \<^verbatim>\<open>photo_url\<close>: built when the entry has a \<^verbatim>\<open>photos\<close> key with a non-empty list, from the
  first photo's reference.
\<close>

definition photo_url_of :: "py_str \<Rightarrow> place_entry \<Rightarrow> py_str option" where
  "photo_url_of key item =
     (case item_photos item of
        None \<Rightarrow> None
      | Some [] \<Rightarrow> None
      | Some (p # ps) \<Rightarrow>
          Some (str ''https://maps.googleapis.com/maps/api/place/photo?maxwidth=400&photoreference=''
                @ format_opt (photo_reference p) @ str ''&key='' @ key))"

text \<open>
  \<^verbatim>\<open>maps_url\<close>: \<^verbatim>\<open>item.get('name').replace(...)\<close> raises \<^verbatim>\<open>AttributeError\<close> when the entry has
  no name; \<^verbatim>\<open>item.get('place_id','')\<close> is empty when the entry has no identifier.
\<close>

definition none_has_no_replace :: py_str where
  "none_has_no_replace =
     39 # str ''NoneType'' @ 39 # str '' object has no attribute '' @ 39 # str ''replace'' @ [39]"

definition maps_url_of :: "place_entry \<Rightarrow> py_str + py_str" where
  "maps_url_of item =
     (case item_name item of
        None \<Rightarrow> Inl none_has_no_replace
      | Some n \<Rightarrow>
          Inr (str ''https://www.google.com/maps/search/?api=1&query='' @ replace_spaces n
               @ str ''&query_place_id=''
               @ (case item_place_id item of None \<Rightarrow> [] | Some i \<Rightarrow> i)))"

text \<open>\<^verbatim>\<open>xs[:count]\<close>; a negative \<open>count\<close> counts from the end.\<close>

definition slice_to :: "int \<Rightarrow> 'a list \<Rightarrow> 'a list" where
  "slice_to count xs =
     (if 0 \<le> count then take (nat count) xs else take (length xs - nat (- count)) xs)"

text \<open>The body of the loop of \<^verbatim>\<open>fetch_places_google\<close> for one entry.\<close>

definition place_of_item :: "py_str \<Rightarrow> place_entry \<Rightarrow> py_str + place" where
  "place_of_item key item =
     (let photo_url = photo_url_of key item
      in case maps_url_of item of
           Inl e \<Rightarrow> Inl e
         | Inr maps_url \<Rightarrow>
             Inr \<lparr> place_name = item_name item,
                   place_address = item_formatted_address item,
                   place_rating = item_rating item,
                   place_photo = photo_url,
                   place_maps_url = maps_url \<rparr>)"

text \<open>The loop: \<open>results\<close> is the list built so far; an exception ends it.\<close>

fun places_loop :: "py_str \<Rightarrow> place_entry list \<Rightarrow> place list \<Rightarrow> py_str + place list" where
  "places_loop key [] results = Inr results"
| "places_loop key (item # items) results =
     (case place_of_item key item of
        Inl e \<Rightarrow> Inl e
      | Inr p \<Rightarrow> places_loop key items (results @ [p]))"

text \<open>The \<^verbatim>\<open>try\<close> block of \<^verbatim>\<open>fetch_places_google\<close>; \<^verbatim>\<open>data.get("results", [])\<close> defaults to no entry.\<close>

definition fetch_places_try ::
  "places_backend \<Rightarrow> py_str \<Rightarrow> py_str \<Rightarrow> int \<Rightarrow> py_str + place list" where
  "fetch_places_try backend key query count =
     (case backend query key of
        GetRaised e \<Rightarrow> Inl e
      | StatusRaised e \<Rightarrow> Inl e
      | JsonRaised e \<Rightarrow> Inl e
      | Payload results \<Rightarrow>
          places_loop key (slice_to count (case results of None \<Rightarrow> [] | Some items \<Rightarrow> items)) [])"

text \<open>
  \<^verbatim>\<open>fetch_places_google\<close>. The key is a constant of the source, here a parameter. The result
  is the list returned and the warning shown with \<^verbatim>\<open>st.warning\<close>, if any. The source's
  defaults are \<^verbatim>\<open>place_type="tourist_attraction"\<close> and \<^verbatim>\<open>count=5\<close>.
\<close>

definition fetch_places_google ::
  "places_backend \<Rightarrow> py_str \<Rightarrow> py_str \<Rightarrow> py_str \<Rightarrow> int \<Rightarrow> place list \<times> py_str option" where
  "fetch_places_google backend GOOGLE_MAPS_API_KEY destination place_type count =
     (if GOOGLE_MAPS_API_KEY = [] then ([], None)
      else
        (let query = str ''top '' @ place_type @ str '' in '' @ destination
         in case fetch_places_try backend GOOGLE_MAPS_API_KEY query count of
              Inr results \<Rightarrow> (results, None)
            | Inl e \<Rightarrow> ([], Some (str ''Google Places error: '' @ e))))"

text \<open>
  The price description of \<^verbatim>\<open>fetch_place_details\<close>:
  \<^verbatim>\<open>{1: "Budget", 2: "Moderate", 3: "Expensive", 4: "Luxury"}.get(price_level, "")\<close>, where
  \<^verbatim>\<open>price_level\<close> is \<^verbatim>\<open>None\<close> for an entry without the key.
\<close>

definition price_table :: "int \<rightharpoonup> py_str" where
  "price_table = [1 \<mapsto> str ''Budget'', 2 \<mapsto> str ''Moderate'', 3 \<mapsto> str ''Expensive'',
                  4 \<mapsto> str ''Luxury'']"

definition price_desc :: "int option \<Rightarrow> py_str" where
  "price_desc price_level =
     (case price_level of
        None \<Rightarrow> []
      | Some l \<Rightarrow> (case price_table l of None \<Rightarrow> [] | Some d \<Rightarrow> d))"

text \<open>
  The \<^verbatim>\<open>try\<close> block of \<^verbatim>\<open>fetch_place_details\<close>: \<open>Inr None\<close> when it ends without a
  \<^verbatim>\<open>return\<close> (no result), so that the function returns \<^verbatim>\<open>None\<close> after it.
\<close>

definition fetch_details_try ::
  "places_backend \<Rightarrow> py_str \<Rightarrow> py_str \<Rightarrow> py_str + place_details option" where
  "fetch_details_try backend key query =
     (case backend query key of
        GetRaised e \<Rightarrow> Inl e
      | StatusRaised e \<Rightarrow> Inl e
      | JsonRaised e \<Rightarrow> Inl e
      | Payload None \<Rightarrow> Inr None
      | Payload (Some []) \<Rightarrow> Inr None
      | Payload (Some (item # items)) \<Rightarrow>
          (let photo_url = photo_url_of key item
           in case maps_url_of item of
                Inl e \<Rightarrow> Inl e
              | Inr maps_url \<Rightarrow>
                  (let price_level = item_price_level item
                   in Inr (Some \<lparr> place_name = item_name item,
                                   place_address = item_formatted_address item,
                                   place_rating = item_rating item,
                                   place_photo = photo_url,
                                   place_maps_url = maps_url,
                                   place_description =
                                     (case item_types item of None \<Rightarrow> [] | Some ts \<Rightarrow> ts),
                                   place_price = price_desc price_level \<rparr>))))"

text \<open>\<^verbatim>\<open>fetch_place_details\<close>: the record returned, if any, and the warning shown, if any.\<close>

definition fetch_place_details ::
  "places_backend \<Rightarrow> py_str \<Rightarrow> py_str \<Rightarrow> py_str \<Rightarrow> place_details option \<times> py_str option" where
  "fetch_place_details backend GOOGLE_API_KEY name destination =
     (let query = name @ str '' in '' @ destination
      in case fetch_details_try backend GOOGLE_API_KEY query of
           Inr r \<Rightarrow> (r, None)
         | Inl e \<Rightarrow> (None, Some (str ''Google Places error: '' @ e)))"

section \<open>Properties of the trip store\<close>

lemmas store_defs = ensure_saved_trips_file_def load_saved_trips_def save_trip_def

lemma save_trip_Trips: "save_trip t (Some (Trips ts)) = (Some (Trips (ts @ [t])), Inr ())"
  by (simp add: store_defs)

lemma save_trip_None: "save_trip t None = (Some (Trips [t]), Inr ())"
  by (simp add: store_defs)

lemma save_trips_Trips:
  "save_trips rs (Some (Trips ts)) = (Some (Trips (ts @ rs)), Inr ())"
  by (induction rs arbitrary: ts) (simp_all add: save_trip_Trips)

lemma load_after_save_trips_None: "snd (load_saved_trips (fst (save_trips rs None))) = Inr rs"
  by (cases rs) (simp_all add: save_trip_None save_trips_Trips store_defs)

lemma save_trips_None_ok: "snd (save_trips rs None) = Inr ()"
  by (cases rs) (simp_all add: save_trip_None save_trips_Trips)

text \<open>
  Claim C2. From an empty store (no file, or a file holding the empty array), saving the
  trips \<open>rs\<close> one after the other raises nothing, and loading afterwards returns exactly
  \<open>rs\<close>, in the order saved. More generally, saving \<open>rs\<close> to a store that holds \<open>ts\<close> leaves
  \<open>ts\<close> unchanged in front of \<open>rs\<close>.
\<close>

theorem store_round_trip:
  "(store = None \<or> store = Some (Trips []) \<longrightarrow>
      snd (save_trips rs store) = Inr ()
      \<and> snd (load_saved_trips (fst (save_trips rs store))) = Inr rs)
   \<and> snd (load_saved_trips (fst (save_trips rs (Some (Trips ts))))) = Inr (ts @ rs)"
  using load_after_save_trips_None [of rs] save_trips_None_ok [of rs]
  by (auto simp: save_trips_Trips store_defs)

theorem store_round_trip_witness:
  "(None = (None :: trips_file) \<or> None = Some (Trips []))
   \<and> snd (save_trips
        [\<lparr>trip_from = str ''Hyderabad, India'', trip_destination = str ''Jammu, India'',
          trip_days = 5, trip_budget = str ''Moderate'', trip_pax = str ''Family'',
          trip_interests = [str ''Sightseeing'', str ''Food''], trip_generated_at = 1700000000,
          trip_itinerary_text = str ''Day 1: Visit Bahu Fort.''\<rparr>,
         \<lparr>trip_from = str ''Delhi'', trip_destination = str ''Agra'',
          trip_days = 2, trip_budget = str ''Economy'', trip_pax = str ''Solo'',
          trip_interests = [], trip_generated_at = 1700000600,
          trip_itinerary_text = str ''Day 1: Visit Taj Mahal''\<rparr>] None) = Inr ()
   \<and> snd (load_saved_trips (fst (save_trips
        [\<lparr>trip_from = str ''Hyderabad, India'', trip_destination = str ''Jammu, India'',
          trip_days = 5, trip_budget = str ''Moderate'', trip_pax = str ''Family'',
          trip_interests = [str ''Sightseeing'', str ''Food''], trip_generated_at = 1700000000,
          trip_itinerary_text = str ''Day 1: Visit Bahu Fort.''\<rparr>,
         \<lparr>trip_from = str ''Delhi'', trip_destination = str ''Agra'',
          trip_days = 2, trip_budget = str ''Economy'', trip_pax = str ''Solo'',
          trip_interests = [], trip_generated_at = 1700000600,
          trip_itinerary_text = str ''Day 1: Visit Taj Mahal''\<rparr>] None))) =
       Inr [\<lparr>trip_from = str ''Hyderabad, India'', trip_destination = str ''Jammu, India'',
          trip_days = 5, trip_budget = str ''Moderate'', trip_pax = str ''Family'',
          trip_interests = [str ''Sightseeing'', str ''Food''], trip_generated_at = 1700000000,
          trip_itinerary_text = str ''Day 1: Visit Bahu Fort.''\<rparr>,
         \<lparr>trip_from = str ''Delhi'', trip_destination = str ''Agra'',
          trip_days = 2, trip_budget = str ''Economy'', trip_pax = str ''Solo'',
          trip_interests = [], trip_generated_at = 1700000600,
          trip_itinerary_text = str ''Day 1: Visit Taj Mahal''\<rparr>]"
  using store_round_trip [of None
        "[\<lparr>trip_from = str ''Hyderabad, India'', trip_destination = str ''Jammu, India'',
          trip_days = 5, trip_budget = str ''Moderate'', trip_pax = str ''Family'',
          trip_interests = [str ''Sightseeing'', str ''Food''], trip_generated_at = 1700000000,
          trip_itinerary_text = str ''Day 1: Visit Bahu Fort.''\<rparr>,
         \<lparr>trip_from = str ''Delhi'', trip_destination = str ''Agra'',
          trip_days = 2, trip_budget = str ''Economy'', trip_pax = str ''Solo'',
          trip_interests = [], trip_generated_at = 1700000600,
          trip_itinerary_text = str ''Day 1: Visit Taj Mahal''\<rparr>]" "[]"]
  by simp

text \<open>
  Claim C7. Without a store file, loading returns the empty list and leaves a file that
  holds the empty array; loading again returns the empty list too.
\<close>

theorem load_creates_store:
  "load_saved_trips None = (Some (Trips []), Inr [])
   \<and> load_saved_trips (fst (load_saved_trips None)) = (Some (Trips []), Inr [])"
  by (simp add: store_defs)

section \<open>Properties of the prompt builder\<close>

lemma sublist_in_middle: "ys = ps @ xs @ ss \<Longrightarrow> sublist xs ys"
  by (auto simp: sublist_def)

text \<open>
  Claim C6. With an empty list of interests the prompt contains the phrase
  \<^verbatim>\<open>general sightseeing\<close>, whatever the destination, the days, the budget and the traveler
  type are, in both source files.
\<close>

theorem prompt_general_sightseeing:
  "sublist (str ''general sightseeing'') (build_itinerary_prompt destination days budget pax [])
   \<and> sublist (str ''general sightseeing'')
        (build_itinerary_prompt_app destination days budget pax [])"
proof
  show "sublist (str ''general sightseeing'')
          (build_itinerary_prompt destination days budget pax [])"
    by (rule sublist_in_middle
        [where ps = "str ''Create a '' @ str_of_int days @ str ''-day travel itinerary for ''
           @ pax @ str '' traveling to '' @ destination @ str ''. ''
           @ str ''Budget: '' @ budget @ str ''. Interests: ''"])
       (simp add: build_itinerary_prompt_def)
  show "sublist (str ''general sightseeing'')
          (build_itinerary_prompt_app destination days budget pax [])"
    by (rule sublist_in_middle
        [where ps = "str ''Create a '' @ str_of_int days @ str ''-day travel itinerary for ''
           @ pax @ str '' traveling to '' @ destination @ str ''. ''
           @ str ''Budget: '' @ budget @ str ''. Interests: ''"])
       (simp add: build_itinerary_prompt_app_def)
qed

section \<open>Properties of the itinerary generator\<close>

text \<open>
  Claim C4. The generator returns a string in every case. Without a configured model it
  is the sentinel \<^verbatim>\<open>ERROR: GOOGLE_API_KEY not set.\<close>; when the call or the access to the
  response's text raises \<open>e\<close>, it is \<^verbatim>\<open>Gemini error: \<close> followed by the text of \<open>e\<close>.
\<close>

theorem generator_never_raises:
  "generate_itinerary_gemini None prompt = str ''ERROR: GOOGLE_API_KEY not set.''
   \<and> (model prompt = CallRaised e \<or> model prompt = TextRaised e \<longrightarrow>
        generate_itinerary_gemini (Some model) prompt = str ''Gemini error: '' @ e)"
  by (auto simp: generate_itinerary_gemini_def generate_try_def)

theorem generator_never_raises_witness:
  "(\<lambda>p. CallRaised (str ''429 quota exceeded'')) (str ''Create a 5-day travel itinerary'')
     = CallRaised (str ''429 quota exceeded'')
   \<and> generate_itinerary_gemini (Some (\<lambda>p. CallRaised (str ''429 quota exceeded'')))
       (str ''Create a 5-day travel itinerary'') = str ''Gemini error: 429 quota exceeded''"
  using generator_never_raises [of "str ''Create a 5-day travel itinerary''"
      "\<lambda>p. CallRaised (str ''429 quota exceeded'')" "str ''429 quota exceeded''"]
  by (simp add: str_def)

section \<open>Properties of the place lookup\<close>

lemmas lookup_defs =
  fetch_place_details_def fetch_details_try_def fetch_places_google_def fetch_places_try_def
  place_of_item_def maps_url_of_def photo_url_of_def format_opt_def replace_spaces_def
  slice_to_def none_has_no_replace_def

lemma price_desc_values:
  "price_desc (Some 1) = str ''Budget''" "price_desc (Some 2) = str ''Moderate''"
  "price_desc (Some 3) = str ''Expensive''" "price_desc (Some 4) = str ''Luxury''"
  "price_desc None = []"
  by (simp_all add: price_desc_def price_table_def)

lemma price_desc_other: "l \<notin> {1, 2, 3, 4} \<Longrightarrow> price_desc (Some l) = []"
  by (simp add: price_desc_def price_table_def)

lemma fetch_place_details_Some:
  assumes "fst (fetch_place_details backend key name destination) = Some d"
  shows "\<exists>item items. backend (name @ str '' in '' @ destination) key = Payload (Some (item # items))
           \<and> place_price d = price_desc (item_price_level item)"
  using assms
  by (auto simp: fetch_place_details_def fetch_details_try_def Let_def
           split: http_outcome.splits option.splits list.splits sum.splits)

text \<open>
  Claim C3. In the by-name lookup the price levels 1, 2, 3 and 4 give \<^verbatim>\<open>Budget\<close>,
  \<^verbatim>\<open>Moderate\<close>, \<^verbatim>\<open>Expensive\<close> and \<^verbatim>\<open>Luxury\<close>; an absent level and every other level give
  the empty string; and the price of a returned record is this description of the price
  level of the first entry of the backend's results.
\<close>

theorem price_tier_mapping:
  "price_desc (Some 1) = str ''Budget'' \<and> price_desc (Some 2) = str ''Moderate''
   \<and> price_desc (Some 3) = str ''Expensive'' \<and> price_desc (Some 4) = str ''Luxury''
   \<and> price_desc None = []
   \<and> (l \<notin> {1, 2, 3, 4} \<longrightarrow> price_desc (Some l) = [])
   \<and> (fst (fetch_place_details backend key name destination) = Some d \<longrightarrow>
        (\<exists>item items.
           backend (name @ str '' in '' @ destination) key = Payload (Some (item # items))
           \<and> place_price d = price_desc (item_price_level item)))"
  using price_desc_values price_desc_other [of l]
    fetch_place_details_Some [of backend key name destination d]
  by blast

theorem price_tier_mapping_witness:
  "(0::int) \<notin> {1, 2, 3, 4} \<and> price_desc (Some 0) = []
   \<and> fst (fetch_place_details
        (\<lambda>q k. Payload (Some [\<lparr>item_name = Some (str ''Bahu Fort''),
           item_formatted_address = None, item_rating = Some 4, item_photos = None,
           item_place_id = Some (str ''abc''), item_price_level = Some 3,
           item_types = None\<rparr>]))
        (str ''KEY'') (str ''Bahu Fort'') (str ''Jammu''))
      = Some \<lparr>place_name = Some (str ''Bahu Fort''), place_address = None,
          place_rating = Some 4, place_photo = None,
          place_maps_url =
            str ''https://www.google.com/maps/search/?api=1&query=Bahu+Fort&query_place_id=abc'',
          place_description = [], place_price = str ''Expensive''\<rparr>"
proof -
  have h: "fst (fetch_place_details
        (\<lambda>q k. Payload (Some [\<lparr>item_name = Some (str ''Bahu Fort''),
           item_formatted_address = None, item_rating = Some 4, item_photos = None,
           item_place_id = Some (str ''abc''), item_price_level = Some 3,
           item_types = None\<rparr>]))
        (str ''KEY'') (str ''Bahu Fort'') (str ''Jammu''))
      = Some \<lparr>place_name = Some (str ''Bahu Fort''), place_address = None,
          place_rating = Some 4, place_photo = None,
          place_maps_url =
            str ''https://www.google.com/maps/search/?api=1&query=Bahu+Fort&query_place_id=abc'',
          place_description = [], place_price = str ''Expensive''\<rparr>"
    by (simp add: lookup_defs price_desc_def price_table_def str_def)
  have a: "(0::int) \<notin> {1, 2, 3, 4}" by simp
  note t = price_tier_mapping [of 0
        "\<lambda>q k. Payload (Some [\<lparr>item_name = Some (str ''Bahu Fort''),
           item_formatted_address = None, item_rating = Some 4, item_photos = None,
           item_place_id = Some (str ''abc''), item_price_level = Some 3,
           item_types = None\<rparr>])"
        "str ''KEY''" "str ''Bahu Fort''" "str ''Jammu''"
        "\<lparr>place_name = Some (str ''Bahu Fort''), place_address = None,
          place_rating = Some 4, place_photo = None,
          place_maps_url =
            str ''https://www.google.com/maps/search/?api=1&query=Bahu+Fort&query_place_id=abc'',
          place_description = [], place_price = str ''Expensive''\<rparr>"]
  from t a have p: "price_desc (Some 0) = []" by blast
  from a p h show ?thesis by (intro conjI)
qed

lemma places_loop_nameless:
  "\<exists>item \<in> set items. item_name item = None \<Longrightarrow> \<exists>e. places_loop key items acc = Inl e"
proof (induction items arbitrary: acc)
  case Nil
  then show ?case by simp
next
  case (Cons item items)
  show ?case
  proof (cases "item_name item")
    case None
    then show ?thesis by (simp add: place_of_item_def maps_url_of_def)
  next
    case (Some n)
    with Cons.prems have "\<exists>i \<in> set items. item_name i = None" by auto
    from Cons.IH [OF this] Some show ?thesis
      by (simp add: place_of_item_def maps_url_of_def)
  qed
qed

text \<open>
  Claim C5. When the request, the status check or the decoding of the body raises, the
  bulk search returns the empty list and the by-name search returns \<open>None\<close>; the same
  holds when the payload is malformed in that an entry read has no name. The exception
  ends in the warning and does not leave the function.
\<close>

theorem place_lookup_swallows_failures:
  "(backend (str ''top '' @ place_type @ str '' in '' @ destination) key
        \<in> {GetRaised e, StatusRaised e, JsonRaised e} \<longrightarrow>
      fst (fetch_places_google backend key destination place_type count) = [])
   \<and> (backend (name @ str '' in '' @ destination) key
        \<in> {GetRaised e, StatusRaised e, JsonRaised e} \<longrightarrow>
      fst (fetch_place_details backend key name destination) = None)
   \<and> (backend' (str ''top '' @ place_type @ str '' in '' @ destination) key = Payload (Some items)
        \<and> None \<in> set (map item_name (slice_to count items)) \<longrightarrow>
      fst (fetch_places_google backend' key destination place_type count) = [])
   \<and> (backend' (name @ str '' in '' @ destination) key = Payload (Some (item # rest))
        \<and> item_name item = None \<longrightarrow>
      fst (fetch_place_details backend' key name destination) = None)"
proof (intro conjI impI)
  assume "backend (str ''top '' @ place_type @ str '' in '' @ destination) key
        \<in> {GetRaised e, StatusRaised e, JsonRaised e}"
  then show "fst (fetch_places_google backend key destination place_type count) = []"
    by (auto simp: fetch_places_google_def fetch_places_try_def)
next
  assume a: "backend' (str ''top '' @ place_type @ str '' in '' @ destination) key = Payload (Some items)
        \<and> None \<in> set (map item_name (slice_to count items))"
  then have "\<exists>item \<in> set (slice_to count items). item_name item = None"
    by (auto simp: image_iff) metis
  then obtain x where "places_loop key (slice_to count items) [] = Inl x"
    using places_loop_nameless by blast
  with a show "fst (fetch_places_google backend' key destination place_type count) = []"
    by (simp add: fetch_places_google_def fetch_places_try_def)
next
  assume "backend (name @ str '' in '' @ destination) key
        \<in> {GetRaised e, StatusRaised e, JsonRaised e}"
  then show "fst (fetch_place_details backend key name destination) = None"
    by (auto simp: fetch_place_details_def fetch_details_try_def)
next
  assume "backend' (name @ str '' in '' @ destination) key = Payload (Some (item # rest))
        \<and> item_name item = None"
  then show "fst (fetch_place_details backend' key name destination) = None"
    by (simp add: fetch_place_details_def fetch_details_try_def maps_url_of_def)
qed


theorem place_lookup_swallows_failures_witness:
  "StatusRaised (str ''403 Client Error'')
     \<in> {GetRaised (str ''403 Client Error''), StatusRaised (str ''403 Client Error''),
         JsonRaised (str ''403 Client Error'')}
   \<and> fst (fetch_places_google (\<lambda>q k. StatusRaised (str ''403 Client Error'')) (str ''KEY'')
          (str ''Jammu'') (str ''tourist_attraction'') 5) = []
   \<and> fst (fetch_place_details (\<lambda>q k. StatusRaised (str ''403 Client Error'')) (str ''KEY'')
          (str ''Bahu Fort'') (str ''Jammu'')) = None
   \<and> None \<in> set (map item_name (slice_to 5
        [\<lparr>item_name = None, item_formatted_address = Some (str ''Jammu''),
          item_rating = None, item_photos = None, item_place_id = None,
          item_price_level = None, item_types = None\<rparr>]))
   \<and> fst (fetch_places_google
        (\<lambda>q k. Payload (Some
          [\<lparr>item_name = None, item_formatted_address = Some (str ''Jammu''),
            item_rating = None, item_photos = None, item_place_id = None,
            item_price_level = None, item_types = None\<rparr>]))
        (str ''KEY'') (str ''Jammu'') (str ''tourist_attraction'') 5) = []
   \<and> fst (fetch_place_details
        (\<lambda>q k. Payload (Some
          [\<lparr>item_name = None, item_formatted_address = Some (str ''Jammu''),
            item_rating = None, item_photos = None, item_place_id = None,
            item_price_level = None, item_types = None\<rparr>]))
        (str ''KEY'') (str ''Bahu Fort'') (str ''Jammu'')) = None"
proof -
  have a: "StatusRaised (str ''403 Client Error'')
     \<in> {GetRaised (str ''403 Client Error''), StatusRaised (str ''403 Client Error''),
         JsonRaised (str ''403 Client Error'')}"
    by simp
  have b: "None \<in> set (map item_name (slice_to 5
        [\<lparr>item_name = None, item_formatted_address = Some (str ''Jammu''),
          item_rating = None, item_photos = None, item_place_id = None,
          item_price_level = None, item_types = None\<rparr>]))"
    by (simp add: slice_to_def)
  have c: "item_name \<lparr>item_name = None, item_formatted_address = Some (str ''Jammu''),
          item_rating = None, item_photos = None, item_place_id = None,
          item_price_level = None, item_types = None\<rparr> = None"
    by simp
  note t = place_lookup_swallows_failures
    [of "\<lambda>q k. StatusRaised (str ''403 Client Error'')" "str ''tourist_attraction''"
        "str ''Jammu''" "str ''KEY''" "str ''403 Client Error''" 5 "str ''Bahu Fort''"
        "\<lambda>q k. Payload (Some
          [\<lparr>item_name = None, item_formatted_address = Some (str ''Jammu''),
            item_rating = None, item_photos = None, item_place_id = None,
            item_price_level = None, item_types = None\<rparr>])"
        "[\<lparr>item_name = None, item_formatted_address = Some (str ''Jammu''),
            item_rating = None, item_photos = None, item_place_id = None,
            item_price_level = None, item_types = None\<rparr>]"
        "\<lparr>item_name = None, item_formatted_address = Some (str ''Jammu''),
            item_rating = None, item_photos = None, item_place_id = None,
            item_price_level = None, item_types = None\<rparr>" "[]"]
  from t a b c show ?thesis by blast
qed

section \<open>Properties of the location extractor\<close>

lemmas extractor_defs =
  extract_locations_from_itinerary_def split_lines_def extract_line_def str_def
  triggers_def match_tail_def is_space_def in_class_def strip_def

lemma try_ws_Some:
  "try_ws k s = Some g \<Longrightarrow> \<exists>j. 0 < j \<and> j \<le> k \<and> g = takeWhile in_class (drop j s) \<and> g \<noteq> []"
proof (induction k)
  case 0
  then show ?case by simp
next
  case (Suc k)
  show ?case
  proof (cases "takeWhile in_class (drop (Suc k) s) = []")
    case True
    with Suc.prems have "try_ws k s = Some g" by simp
    from Suc.IH [OF this] show ?thesis by (auto intro: le_SucI)
  next
    case False
    with Suc.prems have "g = takeWhile in_class (drop (Suc k) s)" by (simp add: Let_def)
    with False show ?thesis by (intro exI [of _ "Suc k"]) simp
  qed
qed

lemma match_tail_shape:
  assumes "match_tail s = Some g"
  shows "\<exists>ws rest. s = ws @ g @ rest \<and> ws \<noteq> [] \<and> list_all is_space ws
           \<and> g \<noteq> [] \<and> list_all in_class g"
proof -
  let ?sp = "takeWhile is_space s"
  from assms obtain j where j: "0 < j" "j \<le> length ?sp"
    and g: "g = takeWhile in_class (drop j s)" "g \<noteq> []"
    using try_ws_Some unfolding match_tail_def by blast
  have "take j (?sp @ dropWhile is_space s) = take j ?sp"
    using j(2) by (simp del: takeWhile_dropWhile_id)
  then have tk: "take j s = take j ?sp" by simp
  have "set (take j ?sp) \<subseteq> set ?sp" by (rule set_take_subset)
  then have sp: "list_all is_space (take j s)"
    unfolding tk by (auto simp: list_all_iff dest: set_takeWhileD)
  have "length ?sp \<le> length s" by (rule length_takeWhile_le)
  with j have ne: "take j s \<noteq> []" by auto
  have "s = take j s @ g @ dropWhile in_class (drop j s)"
    unfolding g by simp
  moreover have "list_all in_class g"
    unfolding g by (auto simp: list_all_iff dest: set_takeWhileD)
  ultimately show ?thesis using sp ne g(2) by blast
qed

lemma match_alts_shape:
  "match_alts ts s = Some g \<Longrightarrow>
     \<exists>t ws rest. t \<in> set ts \<and> s = t @ ws @ g @ rest \<and> ws \<noteq> [] \<and> list_all is_space ws
       \<and> g \<noteq> [] \<and> list_all in_class g"
proof (induction ts)
  case Nil
  then show ?case by simp
next
  case (Cons t ts)
  show ?case
  proof (cases "prefix t s \<and> match_tail (drop (length t) s) = Some g")
    case True
    then obtain ws rest where
      "drop (length t) s = ws @ g @ rest" "ws \<noteq> []" "list_all is_space ws"
      "g \<noteq> []" "list_all in_class g"
      using match_tail_shape by blast
    moreover from True have "s = t @ drop (length t) s"
      by (auto simp: prefix_def)
    ultimately have "s = t @ ws @ g @ rest" by simp
    then show ?thesis
      using \<open>ws \<noteq> []\<close> \<open>list_all is_space ws\<close> \<open>g \<noteq> []\<close> \<open>list_all in_class g\<close>
      by (intro exI [of _ t] exI [of _ ws] exI [of _ rest]) simp
  next
    case False
    with Cons.prems have "match_alts ts s = Some g"
      by (auto split: if_splits option.splits)
    from Cons.IH [OF this] show ?thesis by auto
  qed
qed

lemma re_search_shape:
  "re_search line = Some g \<Longrightarrow>
     \<exists>pre t ws rest. t \<in> set triggers \<and> line = pre @ t @ ws @ g @ rest \<and> ws \<noteq> []
       \<and> list_all is_space ws \<and> g \<noteq> [] \<and> list_all in_class g"
proof (induction line)
  case Nil
  then have "match_alts triggers [] = Some g" by simp
  from match_alts_shape [OF this] show ?case by simp
next
  case (Cons c cs)
  show ?case
  proof (cases "match_alts triggers (c # cs)")
    case (Some h)
    with Cons.prems have "match_alts triggers (c # cs) = Some g" by simp
    from match_alts_shape [OF this] obtain t ws rest where
      "t \<in> set triggers" "c # cs = [] @ t @ ws @ g @ rest" "ws \<noteq> []" "list_all is_space ws"
      "g \<noteq> []" "list_all in_class g" by auto
    then show ?thesis by blast
  next
    case None
    with Cons.prems have "re_search cs = Some g" by simp
    from Cons.IH [OF this] obtain pre t ws rest where
      "t \<in> set triggers" "cs = pre @ t @ ws @ g @ rest" "ws \<noteq> []" "list_all is_space ws"
      "g \<noteq> []" "list_all in_class g" by blast
    then have "t \<in> set triggers" "c # cs = (c # pre) @ t @ ws @ g @ rest" "ws \<noteq> []"
      "list_all is_space ws" "g \<noteq> []" "list_all in_class g" by simp_all
    then show ?thesis by blast
  qed
qed


lemma match_alts_prefix: "match_alts ts s = Some g \<Longrightarrow> \<exists>t \<in> set ts. prefix t s"
  by (induction ts) (auto split: if_splits option.splits)

lemma re_search_trigger:
  "re_search line = Some g \<Longrightarrow> \<exists>t \<in> set triggers. sublist t line"
proof (induction line)
  case Nil
  then show ?case by (auto dest!: match_alts_prefix)
next
  case (Cons c cs)
  show ?case
  proof (cases "match_alts triggers (c # cs)")
    case None
    with Cons.prems have "re_search cs = Some g" by simp
    then obtain t where "t \<in> set triggers" "sublist t cs"
      using Cons.IH by blast
    then show ?thesis by (auto simp: sublist_Cons_right)
  next
    case (Some h)
    then obtain t where "t \<in> set triggers" "prefix t (c # cs)"
      using match_alts_prefix by blast
    then show ?thesis by (auto simp: sublist_Cons_right)
  qed
qed

lemma re_search_no_trigger:
  "\<forall>t \<in> set triggers. \<not> sublist t line \<Longrightarrow> re_search line = None"
  using re_search_trigger [of line] by (cases "re_search line") auto

lemma finite_extract_line: "finite A \<Longrightarrow> finite (extract_line A l)"
  by (simp add: extract_line_def Let_def split: option.splits)

lemma card_extract_line: "finite A \<Longrightarrow> card (extract_line A l) \<le> Suc (card A)"
  by (simp add: extract_line_def Let_def card_insert_if split: option.splits)

lemma foldl_extract_line_card:
  "finite A \<Longrightarrow>
     finite (foldl extract_line A ls) \<and> card (foldl extract_line A ls) \<le> card A + length ls"
proof (induction ls arbitrary: A)
  case Nil
  then show ?case by simp
next
  case (Cons l ls)
  have f: "finite (extract_line A l)" using Cons.prems by (rule finite_extract_line)
  have c: "card (extract_line A l) \<le> Suc (card A)" using Cons.prems by (rule card_extract_line)
  from Cons.IH [OF f] c show ?case by simp
qed

lemma foldl_extract_line_length:
  "(\<forall>loc \<in> A. 2 < length loc) \<Longrightarrow> \<forall>loc \<in> foldl extract_line A ls. 2 < length loc"
proof (induction ls arbitrary: A)
  case Nil
  then show ?case by simp
next
  case (Cons l ls)
  have "\<forall>loc \<in> extract_line A l. 2 < length loc"
    using Cons.prems by (auto simp: extract_line_def Let_def split: option.splits)
  from Cons.IH [OF this] show ?case by simp
qed

text \<open>
  Claim C1, as stated: for the text \<^verbatim>\<open>Day 1: Visit Bahu Fort.\<close> the extractor would return
  the set holding \<^verbatim>\<open>Bahu Fort.\<close> with its period. It does not.
\<close>

theorem bahu_fort_counterexample:
  "extract_locations_from_itinerary (str ''Day 1: Visit Bahu Fort.'') \<noteq> {str ''Bahu Fort.''}"
  by (simp add: extractor_defs)

text \<open>
  Claim C1, amended: for the text \<^verbatim>\<open>Day 1: Visit Bahu Fort.\<close> the extractor returns the set
  holding \<^verbatim>\<open>Bahu Fort\<close> alone. The period is not in the character class of group 2, so
  the matched run ends before it.
\<close>

theorem bahu_fort_without_period:
  "extract_locations_from_itinerary (str ''Day 1: Visit Bahu Fort.'') = {str ''Bahu Fort''}"
  by (simp add: extractor_defs)

text \<open>
  Claim C8. When the pattern matches in a line, a trigger phrase is followed by
  whitespace and the matched run \<open>g\<close>; the line adds nothing when the trimmed run has at
  most 2 characters and adds the trimmed run otherwise. Every candidate returned has more
  than 2 characters. \<^verbatim>\<open>Visit AB\<close> gives no candidate, \<^verbatim>\<open>Visit ABC\<close> gives \<^verbatim>\<open>ABC\<close>.
\<close>

theorem length_filter:
  "(re_search line = Some g \<longrightarrow>
      (\<exists>pre t ws rest. t \<in> set triggers \<and> line = pre @ t @ ws @ g @ rest \<and> ws \<noteq> []
         \<and> list_all is_space ws)
      \<and> extract_line locations line =
          (if length (strip g) \<le> 2 then locations else insert (strip g) locations))
   \<and> (\<forall>loc \<in> extract_locations_from_itinerary text. 2 < length loc)
   \<and> extract_locations_from_itinerary (str ''Visit AB'') = {}
   \<and> extract_locations_from_itinerary (str ''Visit ABC'') = {str ''ABC''}"
proof (intro conjI impI)
  assume m: "re_search line = Some g"
  from re_search_shape [OF m]
  show "\<exists>pre t ws rest. t \<in> set triggers \<and> line = pre @ t @ ws @ g @ rest \<and> ws \<noteq> []
         \<and> list_all is_space ws"
    by blast
  from m show "extract_line locations line =
          (if length (strip g) \<le> 2 then locations else insert (strip g) locations)"
    by (simp add: extract_line_def Let_def)
next
  show "\<forall>loc \<in> extract_locations_from_itinerary text. 2 < length loc"
    using foldl_extract_line_length [of "{}" "split_lines text"]
    by (simp add: extract_locations_from_itinerary_def)
next
  show "extract_locations_from_itinerary (str ''Visit AB'') = {}"
    by (simp add: extractor_defs)
next
  show "extract_locations_from_itinerary (str ''Visit ABC'') = {str ''ABC''}"
    by (simp add: extractor_defs)
qed

theorem length_filter_witness:
  "re_search (str ''Visit AB'') = Some (str ''AB'')
   \<and> extract_line {} (str ''Visit AB'') = {}
   \<and> str ''Red Fort'' \<in> extract_locations_from_itinerary (str ''Visit Red Fort'')
   \<and> 2 < length (str ''Red Fort'')"
proof -
  have h: "re_search (str ''Visit AB'') = Some (str ''AB'')"
    by (simp add: extractor_defs)
  have i: "str ''Red Fort'' \<in> extract_locations_from_itinerary (str ''Visit Red Fort'')"
    by (simp add: extractor_defs)
  have s: "strip (str ''AB'') = str ''AB''"
    by (simp add: extractor_defs)
  from length_filter [of "str ''Visit AB''" "str ''AB''" "{}" "str ''Visit Red Fort''"] h i s
  show ?thesis by (simp add: str_def)
qed

text \<open>
  Claim C9. The set returned is finite and has at most as many elements as the text has
  lines; a line adds at most one element, the first match in it, also when the line holds
  several trigger phrases.
\<close>

theorem one_candidate_per_line:
  "finite (extract_locations_from_itinerary text)
   \<and> card (extract_locations_from_itinerary text) \<le> length (split_lines text)
   \<and> card (extract_line locations line - locations) \<le> 1
   \<and> extract_locations_from_itinerary (str ''Visit Red Fort. Explore Old Town'')
       = {str ''Red Fort''}"
proof (intro conjI)
  show "finite (extract_locations_from_itinerary text)"
    using foldl_extract_line_card [of "{}" "split_lines text"]
    by (simp add: extract_locations_from_itinerary_def)
  show "card (extract_locations_from_itinerary text) \<le> length (split_lines text)"
    using foldl_extract_line_card [of "{}" "split_lines text"]
    by (simp add: extract_locations_from_itinerary_def)
  show "card (extract_line locations line - locations) \<le> 1"
    by (simp add: extract_line_def Let_def insert_Diff_if split: option.splits)
  show "extract_locations_from_itinerary (str ''Visit Red Fort. Explore Old Town'')
       = {str ''Red Fort''}"
    by (simp add: extractor_defs)
qed

text \<open>
  Claim C10. Trigger phrases match in their own letter case only: a line in which no
  trigger phrase occurs as written has no match and adds no candidate, so
  \<^verbatim>\<open>visit Red Fort\<close> and \<^verbatim>\<open>VISIT Red Fort\<close> give nothing while \<^verbatim>\<open>Visit Red Fort\<close> gives
  \<^verbatim>\<open>Red Fort\<close>.
\<close>

theorem triggers_case_sensitive:
  "((\<forall>t \<in> set triggers. \<not> sublist t line) \<longrightarrow>
      re_search line = None \<and> extract_line locations line = locations)
   \<and> extract_locations_from_itinerary (str ''visit Red Fort'') = {}
   \<and> extract_locations_from_itinerary (str ''VISIT Red Fort'') = {}
   \<and> extract_locations_from_itinerary (str ''Visit Red Fort'') = {str ''Red Fort''}"
proof (intro conjI impI)
  assume a: "\<forall>t \<in> set triggers. \<not> sublist t line"
  from re_search_no_trigger [OF a] show "re_search line = None" .
  then show "extract_line locations line = locations"
    by (simp add: extract_line_def)
next
  show "extract_locations_from_itinerary (str ''visit Red Fort'') = {}"
    by (simp add: extractor_defs)
  show "extract_locations_from_itinerary (str ''VISIT Red Fort'') = {}"
    by (simp add: extractor_defs)
  show "extract_locations_from_itinerary (str ''Visit Red Fort'') = {str ''Red Fort''}"
    by (simp add: extractor_defs)
qed

theorem triggers_case_sensitive_witness:
  "list_all (\<lambda>t. \<not> sublist t (str ''VISIT Red Fort'')) triggers
   \<and> re_search (str ''VISIT Red Fort'') = None
   \<and> extract_line {} (str ''VISIT Red Fort'') = {}"
proof -
  have l: "list_all (\<lambda>t. \<not> sublist t (str ''VISIT Red Fort'')) triggers"
    by (simp add: triggers_def str_def sublist_code)
  then have h: "\<forall>t \<in> set triggers. \<not> sublist t (str ''VISIT Red Fort'')"
    by (simp add: list_all_iff)
  from triggers_case_sensitive [of "str ''VISIT Red Fort''" "{}"] h l
  show ?thesis by simp
qed

end
